theory Spec2Isabelle
  imports Complex_Main
begin

section \<open>Order management with SMS verification: the model of src/main.py\<close>

text \<open>
  The handlers of src/main.py are embedded as functions on an explicit database state.
  Every handler takes the database, the value of \<^verbatim>\<open>datetime.utcnow()\<close> for the request,
  the outcome of the call to the external 2FA provider (when it makes one) and its request,
  and returns the response or the error raised, together with the committed database.
\<close>

subsection \<open>Time\<close>

text \<open>A \<^verbatim>\<open>datetime\<close> is a number of microseconds; a \<^verbatim>\<open>timedelta\<close> is a difference of two.\<close>

type_synonym datetime = int

definition timedelta_hours :: "int \<Rightarrow> int" where
  "timedelta_hours h = h * 3600000000"

definition timedelta_minutes :: "int \<Rightarrow> int" where
  "timedelta_minutes m = m * 60000000"

subsection \<open>Enumerations\<close>

datatype PaymentMethod = CASH_ON_DELIVERY | BKASH | NAGAD | CARD

fun PaymentMethod_value :: "PaymentMethod \<Rightarrow> string" where
  "PaymentMethod_value CASH_ON_DELIVERY = ''cash_on_delivery''"
| "PaymentMethod_value BKASH = ''bkash''"
| "PaymentMethod_value NAGAD = ''nagad''"
| "PaymentMethod_value CARD = ''card''"

datatype OrderStatus = PENDING | VERIFIED | PROCESSING | SHIPPED | DELIVERED | CANCELLED

fun OrderStatus_value :: "OrderStatus \<Rightarrow> string" where
  "OrderStatus_value PENDING = ''pending''"
| "OrderStatus_value VERIFIED = ''verified''"
| "OrderStatus_value PROCESSING = ''processing''"
| "OrderStatus_value SHIPPED = ''shipped''"
| "OrderStatus_value DELIVERED = ''delivered''"
| "OrderStatus_value CANCELLED = ''cancelled''"

text \<open>\<^verbatim>\<open>OrderStatus(s)\<close>: the member whose value is \<open>s\<close>; \<open>None\<close> is the ValueError.\<close>

definition OrderStatus_of :: "string \<Rightarrow> OrderStatus option" where
  "OrderStatus_of s =
     find (\<lambda>m. OrderStatus_value m = s) [PENDING, VERIFIED, PROCESSING, SHIPPED, DELIVERED, CANCELLED]"

subsection \<open>Request and response models\<close>

text \<open>
  \<^verbatim>\<open>price: float\<close> is modelled by an exact rational: the model computes the sum the
  floating-point code approximates. The concrete inputs evaluated below use prices such as
  1/2, on which binary floating point is exact.
\<close>

record Book =
  book_id :: string
  title :: string
  price :: rat
  quantity :: int

record OrderRequest =
  req_phone_number :: string
  req_address :: string
  req_payment_method :: PaymentMethod
  books :: "Book list"

record VerificationRequest =
  req_session_token :: string
  pin_code :: string

record OrderResponse =
  resp_id :: int
  resp_phone_number :: string
  resp_address :: string
  resp_payment_method :: string
  resp_payment_status :: string
  resp_books :: "Book list"
  resp_total_amount :: rat
  resp_order_status :: string
  resp_created_at :: datetime
  resp_verified :: bool

text \<open>The dictionary returned by \<^verbatim>\<open>initiate_order\<close>.\<close>

record InitiateResponse =
  init_message :: string
  init_session_token :: string
  expires_in_seconds :: int
  init_total_amount :: rat




subsection \<open>Database rows and the database\<close>

text \<open>The JSON document kept in \<^verbatim>\<open>VerificationSession.order_data\<close>.\<close>

record OrderData =
  data_phone_number :: string
  data_address :: string
  data_payment_method :: string
  data_books :: "Book list"
  data_total_amount :: rat

record Order =
  order_id :: int
  phone_number :: string
  address :: string
  payment_method :: string
  payment_status :: string
  book_list :: "Book list"
  total_amount :: int
  order_status :: string
  created_at :: datetime
  updated_at :: datetime
  verified :: bool

record VerificationSession =
  session_id :: int
  session_token :: string
  session_phone_number :: string
  pin_id :: string
  attempts :: int
  session_verified :: bool
  expires_at :: datetime
  session_created_at :: datetime
  order_data :: OrderData

text \<open>
  The two tables, in insertion order, and the next value of each autoincrement key.
\<close>

record db =
  verification_sessions :: "VerificationSession list"
  orders :: "Order list"
  next_session_id :: int
  next_order_id :: int

definition empty_db :: db where
  "empty_db = \<lparr>verification_sessions = [], orders = [], next_session_id = 1, next_order_id = 1\<rparr>"

text \<open>Updating and deleting a row go by its primary key.\<close>

definition update_session :: "int \<Rightarrow> (VerificationSession \<Rightarrow> VerificationSession) \<Rightarrow> db \<Rightarrow> db" where
  "update_session sid f d =
     d\<lparr>verification_sessions :=
         map (\<lambda>s. if session_id s = sid then f s else s) (verification_sessions d)\<rparr>"

definition delete_session :: "int \<Rightarrow> db \<Rightarrow> db" where
  "delete_session sid d =
     d\<lparr>verification_sessions := filter (\<lambda>s. session_id s \<noteq> sid) (verification_sessions d)\<rparr>"

definition update_order :: "int \<Rightarrow> (Order \<Rightarrow> Order) \<Rightarrow> db \<Rightarrow> db" where
  "update_order oid f d =
     d\<lparr>orders := map (\<lambda>r. if order_id r = oid then f r else r) (orders d)\<rparr>"

text \<open>
  The constraints the schema declares: primary keys and \<^verbatim>\<open>session_token\<close> are unique, and
  the keys handed out so far are below the next one.
\<close>

definition wf_db :: "db \<Rightarrow> bool" where
  "wf_db d =
     (distinct (map session_id (verification_sessions d)) \<and>
      distinct (map session_token (verification_sessions d)) \<and>
      distinct (map order_id (orders d)) \<and>
      list_all (\<lambda>s. session_id s < next_session_id d) (verification_sessions d) \<and>
      list_all (\<lambda>r. order_id r < next_order_id d) (orders d))"

subsection \<open>Errors\<close>

text \<open>
  An \<^verbatim>\<open>HTTPException\<close> carries its status code and its detail. An exception no handler
  catches leaves the endpoint as it is (the framework answers 500).
\<close>

datatype detail =
    Too_many_verification_attempts
  | SMS_service_error
  | Invalid_or_expired_session
  | Order_already_verified
  | Maximum_verification_attempts_exceeded
  | Invalid_code int
  | Verification_service_temporarily_unavailable
  | Verification_service_error
  | Session_not_found_or_expired
  | Failed_to_send_verification_code
  | Order_not_found_or_unauthorized
  | Cannot_transition string string
  | Cannot_cancel_shipped_or_delivered_orders

datatype exn = AttributeError | ValueError | IntegrityError

datatype error = HTTPException nat detail | Unhandled exn

subsection \<open>The 2FA provider\<close>

text \<open>
  What a call of \<^verbatim>\<open>Infobip2FAClient\<close> does: it raises \<^verbatim>\<open>HTTPException(503)\<close> on a response
  status of 400 or more, raises something else (the connection, the JSON decoder), or
  returns the decoded document.
\<close>

datatype 'a provider = Status_Error | Transport_Error | Response 'a

text \<open>The keys of the documents that the handlers read with \<^verbatim>\<open>.get\<close>.\<close>

record SendPinResult =
  pinId :: "string option"

record VerifyPinResult =
  verified_key :: "bool option"
  attemptsRemaining :: "int option"

subsection \<open>Python's truth and number conversions\<close>

text \<open>\<^verbatim>\<open>not d.get(k)\<close> holds when the key is missing and when its value is false or empty.\<close>

definition falsy_str :: "string option \<Rightarrow> bool" where
  "falsy_str v = (case v of None \<Rightarrow> True | Some s \<Rightarrow> s = [])"

definition falsy_bool :: "bool option \<Rightarrow> bool" where
  "falsy_bool v = (case v of None \<Rightarrow> True | Some b \<Rightarrow> \<not> b)"

text \<open>\<^verbatim>\<open>int(x)\<close> on a float drops the fraction: it rounds toward zero.\<close>

definition py_int :: "rat \<Rightarrow> int" where
  "py_int x = (if 0 \<le> x then \<lfloor>x\<rfloor> else \<lceil>x\<rceil>)"

subsection \<open>The dependency get-current-session\<close>

definition get_current_session :: "db \<Rightarrow> datetime \<Rightarrow> string \<Rightarrow> error + VerificationSession" where
  "get_current_session d now token =
     (case find (\<lambda>s. session_token s = token \<and> expires_at s > now) (verification_sessions d) of
        None \<Rightarrow> Inl (HTTPException 401 Invalid_or_expired_session)
      | Some session \<Rightarrow> Inr session)"

subsection \<open>POST /orders/initiate\<close>

definition recent_sessions :: "db \<Rightarrow> datetime \<Rightarrow> string \<Rightarrow> nat" where
  "recent_sessions d now phone =
     length (filter (\<lambda>s. session_phone_number s = phone \<and>
                          session_created_at s > now - timedelta_hours 1)
               (verification_sessions d))"

definition sum_total :: "Book list \<Rightarrow> rat" where
  "sum_total bs = sum_list (map (\<lambda>book. price book * of_int (quantity book)) bs)"

text \<open>
  \<open>token\<close> is the value of \<^verbatim>\<open>secrets.token_urlsafe(32)\<close>. The commit of a row whose token is
  already stored violates the unique index: the IntegrityError is not caught.
\<close>

definition initiate_order ::
  "db \<Rightarrow> datetime \<Rightarrow> string \<Rightarrow> SendPinResult provider \<Rightarrow> OrderRequest
     \<Rightarrow> (error + InitiateResponse) \<times> db" where
  "initiate_order d now token sms order =
     (if recent_sessions d now (req_phone_number order) \<ge> 5
      then (Inl (HTTPException 429 Too_many_verification_attempts), d)
      else
        let total = sum_total (books order) in
        (case sms of
           Response sms_result \<Rightarrow>
             (if falsy_str (pinId sms_result)
              then (Inl (HTTPException 503 SMS_service_error), d)
              else if token \<in> set (map session_token (verification_sessions d))
              then (Inl (Unhandled IntegrityError), d)
              else
                let session = \<lparr>
                      session_id = next_session_id d,
                      session_token = token,
                      session_phone_number = req_phone_number order,
                      pin_id = (case pinId sms_result of Some p \<Rightarrow> p | None \<Rightarrow> []),
                      attempts = 0,
                      session_verified = False,
                      expires_at = now + timedelta_minutes 10,
                      session_created_at = now,
                      order_data = \<lparr>
                        data_phone_number = req_phone_number order,
                        data_address = req_address order,
                        data_payment_method = PaymentMethod_value (req_payment_method order),
                        data_books = books order,
                        data_total_amount = total\<rparr>\<rparr>
                in (Inr \<lparr>init_message = ''Verification code sent to your phone'',
                         init_session_token = token,
                         expires_in_seconds = 600,
                         init_total_amount = total\<rparr>,
                    d\<lparr>verification_sessions := verification_sessions d @ [session],
                      next_session_id := next_session_id d + 1\<rparr>))
         | _ \<Rightarrow> (Inl (HTTPException 503 SMS_service_error), d)))"

subsection \<open>POST /orders/verify\<close>

definition verify_and_create_order ::
  "db \<Rightarrow> datetime \<Rightarrow> VerifyPinResult provider \<Rightarrow> VerificationRequest
     \<Rightarrow> (error + OrderResponse) \<times> db" where
  "verify_and_create_order d now pin verification =
     (case find (\<lambda>s. session_token s = req_session_token verification \<and> expires_at s > now)
             (verification_sessions d) of
        None \<Rightarrow> (Inl (HTTPException 401 Invalid_or_expired_session), d)
      | Some session \<Rightarrow>
          if session_verified session
          then (Inl (HTTPException 400 Order_already_verified), d)
          else
            (case pin of
               Status_Error \<Rightarrow>
                 (Inl (HTTPException 503 Verification_service_temporarily_unavailable), d)
             | Transport_Error \<Rightarrow> (Inl (HTTPException 503 Verification_service_error), d)
             | Response verify_result \<Rightarrow>
                 if falsy_bool (verified_key verify_result)
                 then
                   let d1 = update_session (session_id session)
                              (\<lambda>s. s\<lparr>attempts := attempts s + 1\<rparr>) d;
                       attempts_remaining =
                         (case attemptsRemaining verify_result of None \<Rightarrow> 0 | Some n \<Rightarrow> n)
                   in if attempts_remaining = 0
                      then (Inl (HTTPException 403 Maximum_verification_attempts_exceeded),
                            delete_session (session_id session) d1)
                      else (Inl (HTTPException 400 (Invalid_code attempts_remaining)), d1)
                 else
                   let d1 = update_session (session_id session)
                              (\<lambda>s. s\<lparr>session_verified := True\<rparr>) d;
                       data = order_data session;
                       db_order = \<lparr>
                         order_id = next_order_id d,
                         phone_number = data_phone_number data,
                         address = data_address data,
                         payment_method = data_payment_method data,
                         payment_status = ''pending'',
                         book_list = data_books data,
                         total_amount = py_int (data_total_amount data),
                         order_status = OrderStatus_value VERIFIED,
                         created_at = now,
                         updated_at = now,
                         verified = True\<rparr>;
                       d2 = d1\<lparr>orders := orders d1 @ [db_order],
                               next_order_id := next_order_id d1 + 1\<rparr>;
                       d3 = delete_session (session_id session) d2
                   in (Inr \<lparr>resp_id = order_id db_order,
                            resp_phone_number = phone_number db_order,
                            resp_address = address db_order,
                            resp_payment_method = payment_method db_order,
                            resp_payment_status = payment_status db_order,
                            resp_books = data_books data,
                            resp_total_amount = of_int (total_amount db_order),
                            resp_order_status = order_status db_order,
                            resp_created_at = created_at db_order,
                            resp_verified = verified db_order\<rparr>,
                       d3)))"

subsection \<open>POST /orders/resend-code\<close>

text \<open>
  Everything after the two checks runs under \<^verbatim>\<open>except Exception\<close>: the provider's own
  HTTPException and the IntegrityError of a null \<^verbatim>\<open>pin_id\<close> at the commit both become 503.
\<close>

definition resend_verification_code ::
  "db \<Rightarrow> datetime \<Rightarrow> SendPinResult provider \<Rightarrow> string \<Rightarrow> (error + string \<times> int) \<times> db" where
  "resend_verification_code d now sms token =
     (case find (\<lambda>s. session_token s = token \<and> expires_at s > now) (verification_sessions d) of
        None \<Rightarrow> (Inl (HTTPException 404 Session_not_found_or_expired), d)
      | Some session \<Rightarrow>
          if session_verified session
          then (Inl (HTTPException 400 Order_already_verified), d)
          else
            (case sms of
               Response sms_result \<Rightarrow>
                 (case pinId sms_result of
                    None \<Rightarrow> (Inl (HTTPException 503 Failed_to_send_verification_code), d)
                  | Some p \<Rightarrow>
                      (Inr (''New verification code sent'', 600),
                       update_session (session_id session)
                         (\<lambda>s. s\<lparr>pin_id := p, attempts := 0,
                                 expires_at := now + timedelta_minutes 10\<rparr>) d))
             | _ \<Rightarrow> (Inl (HTTPException 503 Failed_to_send_verification_code), d)))"

subsection \<open>PUT /orders/\{order-id\}/status and DELETE /orders/\{order-id\}\<close>

text \<open>\<^verbatim>\<open>valid_transitions.get(current_status, [])\<close>.\<close>

fun valid_transitions :: "OrderStatus \<Rightarrow> OrderStatus list" where
  "valid_transitions VERIFIED = [PROCESSING, CANCELLED]"
| "valid_transitions PROCESSING = [SHIPPED, CANCELLED]"
| "valid_transitions SHIPPED = [DELIVERED]"
| "valid_transitions _ = []"

text \<open>
  The parameter \<^verbatim>\<open>status: OrderStatus\<close> of \<^verbatim>\<open>update_order_status\<close> hides the module
  \<^verbatim>\<open>fastapi.status\<close> inside the function. Both \<^verbatim>\<open>raise HTTPException(status_code=status.HTTP_...)\<close>
  statements of its body therefore evaluate an attribute that an \<^verbatim>\<open>OrderStatus\<close> member does
  not have: the AttributeError is raised before the HTTPException is built.
\<close>

definition update_order_status ::
  "db \<Rightarrow> datetime \<Rightarrow> string \<Rightarrow> int \<Rightarrow> OrderStatus \<Rightarrow> (error + string) \<times> db" where
  "update_order_status d now credentials oid status =
     (case get_current_session d now credentials of
        Inl e \<Rightarrow> (Inl e, d)
      | Inr session \<Rightarrow>
          (case find (\<lambda>r. order_id r = oid \<and> phone_number r = session_phone_number session)
                  (orders d) of
             None \<Rightarrow> (Inl (Unhandled AttributeError), d)
           | Some order \<Rightarrow>
               (case OrderStatus_of (order_status order) of
                  None \<Rightarrow> (Inl (Unhandled ValueError), d)
                | Some current_status \<Rightarrow>
                    if status \<notin> set (valid_transitions current_status)
                    then (Inl (Unhandled AttributeError), d)
                    else (Inr (''Order status updated to '' @ OrderStatus_value status),
                          update_order (order_id order)
                            (\<lambda>r. r\<lparr>order_status := OrderStatus_value status, updated_at := now\<rparr>)
                            d))))"

definition cancel_order :: "db \<Rightarrow> datetime \<Rightarrow> string \<Rightarrow> int \<Rightarrow> (error + string) \<times> db" where
  "cancel_order d now credentials oid =
     (case get_current_session d now credentials of
        Inl e \<Rightarrow> (Inl e, d)
      | Inr session \<Rightarrow>
          (case find (\<lambda>r. order_id r = oid \<and> phone_number r = session_phone_number session)
                  (orders d) of
             None \<Rightarrow> (Inl (HTTPException 404 Order_not_found_or_unauthorized), d)
           | Some order \<Rightarrow>
               if order_status order \<in> set [OrderStatus_value SHIPPED, OrderStatus_value DELIVERED]
               then (Inl (HTTPException 400 Cannot_cancel_shipped_or_delivered_orders), d)
               else (Inr ''Order cancelled successfully'',
                     update_order (order_id order)
                       (\<lambda>r. r\<lparr>order_status := OrderStatus_value CANCELLED, updated_at := now\<rparr>)
                       d)))"

subsection \<open>A concrete run\<close>

text \<open>
  One buyer orders one book priced 1/2. The states below are the databases after the
  initiate call at instant 0 (\<open>ex_db1\<close>), after the confirmation five microseconds later
  (\<open>ex_db2\<close>) and after a second initiate call of the same buyer (\<open>ex_db3\<close>).
\<close>

definition ex_request :: OrderRequest where
  "ex_request =
     \<lparr>req_phone_number = ''+8801700000000'', req_address = ''12 Lake Road'',
      req_payment_method = CASH_ON_DELIVERY,
      books = [\<lparr>book_id = ''b1'', title = ''Book'', price = 1 / 2, quantity = 1\<rparr>]\<rparr>"

definition ex_sms :: "SendPinResult provider" where
  "ex_sms = Response \<lparr>pinId = Some ''pin1''\<rparr>"

definition ex_accept :: "VerifyPinResult provider" where
  "ex_accept = Response \<lparr>verified_key = Some True, attemptsRemaining = None\<rparr>"

definition ex_verification :: VerificationRequest where
  "ex_verification = \<lparr>req_session_token = ''tok1'', pin_code = ''1234''\<rparr>"

definition ex_data :: OrderData where
  "ex_data =
     \<lparr>data_phone_number = ''+8801700000000'', data_address = ''12 Lake Road'',
      data_payment_method = ''cash_on_delivery'',
      data_books = [\<lparr>book_id = ''b1'', title = ''Book'', price = 1 / 2, quantity = 1\<rparr>],
      data_total_amount = 1 / 2\<rparr>"

definition ex_session1 :: VerificationSession where
  "ex_session1 =
     \<lparr>session_id = 1, session_token = ''tok1'', session_phone_number = ''+8801700000000'',
      pin_id = ''pin1'', attempts = 0, session_verified = False, expires_at = 600000000,
      session_created_at = 0, order_data = ex_data\<rparr>"

definition ex_db1 :: db where
  "ex_db1 = snd (initiate_order empty_db 0 ''tok1'' ex_sms ex_request)"

definition ex_db2 :: db where
  "ex_db2 = snd (verify_and_create_order ex_db1 5 ex_accept ex_verification)"

definition ex_db3 :: db where
  "ex_db3 = snd (initiate_order ex_db2 10 ''tok2'' ex_sms ex_request)"

definition ex_reject :: "VerifyPinResult provider" where
  "ex_reject = Response \<lparr>verified_key = Some False, attemptsRemaining = Some 2\<rparr>"

definition ex_reject_last :: "VerifyPinResult provider" where
  "ex_reject_last = Response \<lparr>verified_key = Some False, attemptsRemaining = Some 0\<rparr>"

definition ex_order1 :: Order where
  "ex_order1 =
     \<lparr>order_id = 1, phone_number = ''+8801700000000'', address = ''12 Lake Road'',
      payment_method = ''cash_on_delivery'', payment_status = ''pending'',
      book_list = [\<lparr>book_id = ''b1'', title = ''Book'', price = 1 / 2, quantity = 1\<rparr>],
      total_amount = 0, order_status = ''verified'', created_at = 5, updated_at = 5,
      verified = True\<rparr>"

definition ex_response1 :: OrderResponse where
  "ex_response1 =
     \<lparr>resp_id = 1, resp_phone_number = ''+8801700000000'', resp_address = ''12 Lake Road'',
      resp_payment_method = ''cash_on_delivery'', resp_payment_status = ''pending'',
      resp_books = [\<lparr>book_id = ''b1'', title = ''Book'', price = 1 / 2, quantity = 1\<rparr>],
      resp_total_amount = 0, resp_order_status = ''verified'', resp_created_at = 5,
      resp_verified = True\<rparr>"

definition ex_session1_failed :: VerificationSession where
  "ex_session1_failed = ex_session1\<lparr>attempts := 1\<rparr>"

definition ex_session_at :: "int \<Rightarrow> string \<Rightarrow> datetime \<Rightarrow> VerificationSession" where
  "ex_session_at i tok t =
     \<lparr>session_id = i, session_token = tok, session_phone_number = ''+8801700000000'',
      pin_id = ''pin1'', attempts = 0, session_verified = False, expires_at = t + 600000000,
      session_created_at = t, order_data = ex_data\<rparr>"

definition ex_db4 :: db where
  "ex_db4 = snd (initiate_order ex_db3 11 ''tok3'' ex_sms ex_request)"

definition ex_db5 :: db where
  "ex_db5 = snd (initiate_order ex_db4 12 ''tok4'' ex_sms ex_request)"

definition ex_db6 :: db where
  "ex_db6 = snd (initiate_order ex_db5 13 ''tok5'' ex_sms ex_request)"

definition ex_db7 :: db where
  "ex_db7 = snd (initiate_order ex_db6 14 ''tok6'' ex_sms ex_request)"

definition ex_initiated :: "string \<Rightarrow> InitiateResponse" where
  "ex_initiated tok =
     \<lparr>init_message = ''Verification code sent to your phone'', init_session_token = tok,
      expires_in_seconds = 600, init_total_amount = 1 / 2\<rparr>"

text \<open>
  The transition table in the specification's words (section 4.2), to compare with
  \<open>valid_transitions\<close>: current state, allowed next state.
\<close>

definition spec_transition_table :: "(OrderStatus \<times> OrderStatus) list" where
  "spec_transition_table =
     [(VERIFIED, PROCESSING), (VERIFIED, CANCELLED),
      (PROCESSING, SHIPPED), (PROCESSING, CANCELLED),
      (SHIPPED, DELIVERED)]"

text \<open>A second buyer, with another phone number, initiates an order after the first one's.\<close>

definition ex_request_other :: OrderRequest where
  "ex_request_other = ex_request\<lparr>req_phone_number := ''+8801800000000''\<rparr>"

definition ex_session_other :: VerificationSession where
  "ex_session_other =
     \<lparr>session_id = 2, session_token = ''tok9'', session_phone_number = ''+8801800000000'',
      pin_id = ''pin1'', attempts = 0, session_verified = False, expires_at = 600000010,
      session_created_at = 10,
      order_data = ex_data\<lparr>data_phone_number := ''+8801800000000''\<rparr>\<rparr>"

definition ex_db_other :: db where
  "ex_db_other = snd (initiate_order ex_db2 10 ''tok9'' ex_sms ex_request_other)"

section \<open>Basic facts\<close>

lemma key_not_in_tail:
  assumes "distinct (map f (a # xs))" and "y \<in> set xs"
  shows "f y \<noteq> f a"
proof
  assume "f y = f a"
  moreover from assms(2) have "f y \<in> f ` set xs" by (rule imageI)
  ultimately have "f a \<in> f ` set xs" by simp
  with assms(1) show False by simp
qed

text \<open>A query on a unique column finds the row that has the value, or nothing.\<close>

lemma find_unique_key:
  assumes "distinct (map f xs)" and "x \<in> set xs"
  shows "find (\<lambda>y. f y = f x \<and> P y) xs = (if P x then Some x else None)"
  using assms
proof (induction xs)
  case Nil
  then show ?case by simp
next
  case (Cons a xs)
  show ?case
  proof (cases "a = x")
    case True
    have "\<And>y. y \<in> set xs \<Longrightarrow> f y \<noteq> f x"
      using key_not_in_tail [OF Cons.prems(1)] True by simp
    then have "find (\<lambda>y. f y = f x \<and> P y) xs = None"
      unfolding find_None_iff by blast
    with True show ?thesis by simp
  next
    case False
    with Cons.prems(2) have xin: "x \<in> set xs" by simp
    then have "f x \<noteq> f a" using key_not_in_tail [OF Cons.prems(1)] by simp
    moreover from Cons.prems(1) have "distinct (map f xs)" by simp
    ultimately show ?thesis using Cons.IH xin by auto
  qed
qed

lemma ex_db1_eq:
  "ex_db1 = \<lparr>verification_sessions = [ex_session1], orders = [],
             next_session_id = 2, next_order_id = 1\<rparr>"
  by (simp add: ex_db1_def initiate_order_def empty_db_def recent_sessions_def ex_sms_def
      falsy_str_def ex_request_def sum_total_def timedelta_minutes_def ex_session1_def
      ex_data_def Let_def)

lemma live_session_found:
  assumes "wf_db d" and "s \<in> set (verification_sessions d)" and "now < expires_at s"
  shows "find (\<lambda>x. session_token x = session_token s \<and> expires_at x > now)
           (verification_sessions d) = Some s"
proof -
  from assms(1) have "distinct (map session_token (verification_sessions d))"
    by (simp add: wf_db_def)
  from find_unique_key [OF this assms(2), of "\<lambda>x. expires_at x > now"] assms(3)
  show ?thesis by simp
qed

lemma found_session:
  assumes "find (\<lambda>x. session_token x = t \<and> expires_at x > now) ss = Some s"
  shows "s \<in> set ss \<and> session_token s = t \<and> now < expires_at s"
  using assms by (induction ss) (auto split: if_splits)

lemma filter_updated:
  assumes "\<And>x. session_id (f x) = session_id x"
  shows "filter (\<lambda>x. session_id x \<noteq> sid) (map (\<lambda>x. if session_id x = sid then f x else x) ss)
           = filter (\<lambda>x. session_id x \<noteq> sid) ss"
  using assms by (induction ss) auto

lemma update_only_row:
  assumes "distinct (map session_id ss)" and "s \<in> set ss"
  shows "map (\<lambda>x. if session_id x = session_id s then f x else x) ss
           = map (\<lambda>x. if x = s then f s else x) ss"
proof (rule map_cong [OF refl])
  fix x assume "x \<in> set ss"
  moreover from assms(1) have "inj_on session_id (set ss)"
    by (simp add: distinct_map)
  ultimately have "session_id x = session_id s \<longleftrightarrow> x = s"
    using assms(2) by (auto dest: inj_onD)
  then show "(if session_id x = session_id s then f x else x) = (if x = s then f s else x)"
    by auto
qed

lemma token_gone:
  assumes "distinct (map session_token ss)" and "s \<in> set ss"
  shows "find (\<lambda>x. session_token x = session_token s \<and> P x)
           (filter (\<lambda>x. session_id x \<noteq> session_id s) ss) = None"
proof -
  from assms(1) have inj: "inj_on session_token (set ss)"
    by (simp add: distinct_map)
  have "\<And>x. x \<in> set ss \<Longrightarrow> session_id x \<noteq> session_id s \<Longrightarrow> session_token x \<noteq> session_token s"
  proof
    fix x assume "x \<in> set ss" and ne: "session_id x \<noteq> session_id s"
      and "session_token x = session_token s"
    with inj assms(2) have "x = s" by (auto dest: inj_onD)
    with ne show False by simp
  qed
  then show ?thesis unfolding find_None_iff by auto
qed

text \<open>The four ways through the confirmation once the live, unverified session is found.\<close>

lemma confirm_rejected_last:
  assumes "find (\<lambda>x. session_token x = req_session_token v \<and> expires_at x > now)
             (verification_sessions d) = Some s"
    and "\<not> session_verified s" and "falsy_bool (verified_key r)"
    and "attemptsRemaining r = None \<or> attemptsRemaining r = Some 0"
  shows "verify_and_create_order d now (Response r) v
           = (Inl (HTTPException 403 Maximum_verification_attempts_exceeded),
              delete_session (session_id s)
                (update_session (session_id s) (\<lambda>x. x\<lparr>attempts := attempts x + 1\<rparr>) d))"
  using assms by (auto simp: verify_and_create_order_def Let_def)

lemma confirm_rejected:
  assumes "find (\<lambda>x. session_token x = req_session_token v \<and> expires_at x > now)
             (verification_sessions d) = Some s"
    and "\<not> session_verified s" and "falsy_bool (verified_key r)"
    and "attemptsRemaining r = Some n" and "n \<noteq> 0"
  shows "verify_and_create_order d now (Response r) v
           = (Inl (HTTPException 400 (Invalid_code n)),
              update_session (session_id s) (\<lambda>x. x\<lparr>attempts := attempts x + 1\<rparr>) d)"
  using assms by (auto simp: verify_and_create_order_def Let_def)

lemma invalid_code_inv:
  assumes "verify_and_create_order d now pin v = (Inl (HTTPException 400 (Invalid_code n)), d')"
  shows "\<exists>s. find (\<lambda>x. session_token x = req_session_token v \<and> expires_at x > now)
               (verification_sessions d) = Some s
           \<and> n \<noteq> 0
           \<and> d' = update_session (session_id s) (\<lambda>x. x\<lparr>attempts := attempts x + 1\<rparr>) d"
  using assms
  by (auto simp: verify_and_create_order_def Let_def
      split: option.splits if_splits provider.splits)


lemma wf_ex_db1: "wf_db ex_db1"
  by (simp add: ex_db1_eq wf_db_def ex_session1_def)

lemma py_int_half: "py_int (1 / 2) = 0"
  by (simp add: py_int_def floor_eq_iff)

lemma ex_confirm1:
  "verify_and_create_order ex_db1 5 ex_accept ex_verification
     = (Inr ex_response1,
        \<lparr>verification_sessions = [], orders = [ex_order1], next_session_id = 2, next_order_id = 2\<rparr>)"
  by (simp add: ex_db1_eq verify_and_create_order_def ex_accept_def ex_verification_def
      ex_session1_def ex_data_def falsy_bool_def update_session_def delete_session_def
      py_int_half Let_def ex_response1_def ex_order1_def)

lemma ex_db2_eq:
  "ex_db2 = \<lparr>verification_sessions = [], orders = [ex_order1],
             next_session_id = 2, next_order_id = 2\<rparr>"
  by (simp add: ex_db2_def ex_confirm1)


lemma initiate_success_inv:
  assumes "initiate_order d now token sms order = (Inr r, d')"
  shows "recent_sessions d now (req_phone_number order) < 5
       \<and> token \<notin> set (map session_token (verification_sessions d))
       \<and> init_session_token r = token
       \<and> init_total_amount r = sum_total (books order)
       \<and> orders d' = orders d
       \<and> next_order_id d' = next_order_id d
       \<and> (\<exists>s. verification_sessions d' = verification_sessions d @ [s]
              \<and> session_token s = token
              \<and> session_phone_number s = req_phone_number order
              \<and> session_created_at s = now
              \<and> expires_at s = now + timedelta_minutes 10
              \<and> attempts s = 0
              \<and> \<not> session_verified s
              \<and> data_books (order_data s) = books order
              \<and> data_total_amount (order_data s) = sum_total (books order))"
  using assms
  by (auto simp: initiate_order_def Let_def split: if_splits provider.splits)



lemma ex_initiate1:
  "initiate_order empty_db 0 ''tok1'' ex_sms ex_request = (Inr (ex_initiated ''tok1''), ex_db1)"
  by (simp add: ex_db1_eq initiate_order_def empty_db_def recent_sessions_def ex_sms_def
      falsy_str_def ex_request_def sum_total_def timedelta_minutes_def ex_session1_def
      ex_data_def Let_def ex_initiated_def)



lemma ex_initiate_step:
  assumes "recent_sessions d now ''+8801700000000'' < 5"
    and "tok \<notin> set (map session_token (verification_sessions d))"
  shows "initiate_order d now tok ex_sms ex_request
           = (Inr (ex_initiated tok),
              d\<lparr>verification_sessions :=
                   verification_sessions d @ [ex_session_at (next_session_id d) tok now],
                next_session_id := next_session_id d + 1\<rparr>)"
  using assms
  by (simp add: initiate_order_def ex_sms_def falsy_str_def ex_request_def sum_total_def
      timedelta_minutes_def ex_session_at_def ex_data_def Let_def ex_initiated_def)

lemma ex_initiate2:
  "initiate_order ex_db2 10 ''tok2'' ex_sms ex_request
     = (Inr (ex_initiated ''tok2''),
        \<lparr>verification_sessions = [ex_session_at 2 ''tok2'' 10], orders = [ex_order1],
         next_session_id = 3, next_order_id = 2\<rparr>)"
  by (simp add: ex_initiate_step ex_db2_eq recent_sessions_def)

lemma ex_db3_eq:
  "ex_db3 = \<lparr>verification_sessions = [ex_session_at 2 ''tok2'' 10], orders = [ex_order1],
             next_session_id = 3, next_order_id = 2\<rparr>"
  by (simp add: ex_db3_def ex_initiate2)

lemma ex_initiate3:
  "initiate_order ex_db3 11 ''tok3'' ex_sms ex_request
     = (Inr (ex_initiated ''tok3''),
        \<lparr>verification_sessions = [ex_session_at 2 ''tok2'' 10, ex_session_at 3 ''tok3'' 11],
         orders = [ex_order1], next_session_id = 4, next_order_id = 2\<rparr>)"
  by (simp add: ex_initiate_step ex_db3_eq recent_sessions_def ex_session_at_def)

lemma ex_db4_eq:
  "ex_db4 = \<lparr>verification_sessions = [ex_session_at 2 ''tok2'' 10, ex_session_at 3 ''tok3'' 11],
             orders = [ex_order1], next_session_id = 4, next_order_id = 2\<rparr>"
  by (simp add: ex_db4_def ex_initiate3)

lemma ex_initiate4:
  "initiate_order ex_db4 12 ''tok4'' ex_sms ex_request
     = (Inr (ex_initiated ''tok4''),
        \<lparr>verification_sessions = [ex_session_at 2 ''tok2'' 10, ex_session_at 3 ''tok3'' 11,
           ex_session_at 4 ''tok4'' 12],
         orders = [ex_order1], next_session_id = 5, next_order_id = 2\<rparr>)"
  by (simp add: ex_initiate_step ex_db4_eq recent_sessions_def ex_session_at_def)

lemma ex_db5_eq:
  "ex_db5 = \<lparr>verification_sessions = [ex_session_at 2 ''tok2'' 10, ex_session_at 3 ''tok3'' 11,
               ex_session_at 4 ''tok4'' 12],
             orders = [ex_order1], next_session_id = 5, next_order_id = 2\<rparr>"
  by (simp add: ex_db5_def ex_initiate4)

lemma ex_initiate5:
  "initiate_order ex_db5 13 ''tok5'' ex_sms ex_request
     = (Inr (ex_initiated ''tok5''),
        \<lparr>verification_sessions = [ex_session_at 2 ''tok2'' 10, ex_session_at 3 ''tok3'' 11,
           ex_session_at 4 ''tok4'' 12, ex_session_at 5 ''tok5'' 13],
         orders = [ex_order1], next_session_id = 6, next_order_id = 2\<rparr>)"
  by (simp add: ex_initiate_step ex_db5_eq recent_sessions_def ex_session_at_def)

lemma ex_db6_eq:
  "ex_db6 = \<lparr>verification_sessions = [ex_session_at 2 ''tok2'' 10, ex_session_at 3 ''tok3'' 11,
               ex_session_at 4 ''tok4'' 12, ex_session_at 5 ''tok5'' 13],
             orders = [ex_order1], next_session_id = 6, next_order_id = 2\<rparr>"
  by (simp add: ex_db6_def ex_initiate5)

lemma ex_initiate6:
  "initiate_order ex_db6 14 ''tok6'' ex_sms ex_request
     = (Inr (ex_initiated ''tok6''),
        \<lparr>verification_sessions = [ex_session_at 2 ''tok2'' 10, ex_session_at 3 ''tok3'' 11,
           ex_session_at 4 ''tok4'' 12, ex_session_at 5 ''tok5'' 13, ex_session_at 6 ''tok6'' 14],
         orders = [ex_order1], next_session_id = 7, next_order_id = 2\<rparr>)"
  by (simp add: ex_initiate_step ex_db6_eq recent_sessions_def ex_session_at_def
      timedelta_hours_def)

lemma ex_db7_eq:
  "ex_db7 = \<lparr>verification_sessions = [ex_session_at 2 ''tok2'' 10, ex_session_at 3 ''tok3'' 11,
               ex_session_at 4 ''tok4'' 12, ex_session_at 5 ''tok5'' 13, ex_session_at 6 ''tok6'' 14],
             orders = [ex_order1], next_session_id = 7, next_order_id = 2\<rparr>"
  by (simp add: ex_db7_def ex_initiate6)

lemma initiate_appends:
  assumes "initiate_order d now token sms order = (Inr r, d')"
  shows "\<exists>s. verification_sessions d' = verification_sessions d @ [s]
            \<and> session_phone_number s = req_phone_number order \<and> session_created_at s = now"
  using initiate_success_inv [OF assms] by blast

lemma ex_db_other_eq:
  "ex_db_other = \<lparr>verification_sessions = [ex_session_other], orders = [ex_order1],
                  next_session_id = 3, next_order_id = 2\<rparr>"
  by (simp add: ex_db_other_def ex_db2_eq initiate_order_def recent_sessions_def ex_sms_def
      falsy_str_def ex_request_other_def ex_request_def sum_total_def timedelta_minutes_def
      ex_session_other_def ex_data_def Let_def)

lemma OrderStatus_of_value: "OrderStatus_of (OrderStatus_value st) = Some st"
  by (cases st) (simp_all add: OrderStatus_of_def)

lemma in_spec_table: "(cur, req) \<in> set spec_transition_table \<longleftrightarrow> req \<in> set (valid_transitions cur)"
  by (cases cur; cases req) (simp_all add: spec_transition_table_def)

lemma cancel_rejected_iff:
  "OrderStatus_value cur \<in> set [OrderStatus_value SHIPPED, OrderStatus_value DELIVERED]
     \<longleftrightarrow> cur = SHIPPED \<or> cur = DELIVERED"
  by (cases cur) simp_all

lemma find_some_in:
  assumes "find P xs = Some x"
  shows "x \<in> set xs \<and> P x"
  using assms by (induction xs) (auto split: if_splits)

section \<open>Session expiry\<close>

text \<open>
  Claim C7. A session whose \<open>expires_at\<close> has passed (\<open>expires_at s \<le> now\<close>) is still a row of
  the table, yet confirming with its token raises 401 "Invalid or expired session" and
  resending raises 404 "Session not found or expired" (the two forms of the specification's
  SessionInvalid), whatever the provider would answer and whatever code is sent; the
  database is returned as it was.
\<close>

theorem expired_session_is_invalid:
  assumes "wf_db d" and "s \<in> set (verification_sessions d)" and "expires_at s \<le> now"
  shows "verify_and_create_order d now pin \<lparr>req_session_token = session_token s, pin_code = code\<rparr>
           = (Inl (HTTPException 401 Invalid_or_expired_session), d)
       \<and> resend_verification_code d now sms (session_token s)
           = (Inl (HTTPException 404 Session_not_found_or_expired), d)"
proof -
  from assms(1) have dt: "distinct (map session_token (verification_sessions d))"
    by (simp add: wf_db_def)
  have "find (\<lambda>x. session_token x = session_token s \<and> expires_at x > now)
          (verification_sessions d) = None"
    using find_unique_key [OF dt assms(2), of "\<lambda>x. expires_at x > now"] assms(3) by simp
  then show ?thesis
    by (simp add: verify_and_create_order_def resend_verification_code_def)
qed

theorem expired_session_is_invalid_witness:
  "wf_db ex_db1 \<and> ex_session1 \<in> set (verification_sessions ex_db1)
   \<and> expires_at ex_session1 \<le> 600000000
   \<and> verify_and_create_order ex_db1 600000000 ex_accept ex_verification
       = (Inl (HTTPException 401 Invalid_or_expired_session), ex_db1)
   \<and> resend_verification_code ex_db1 600000000 ex_sms ''tok1''
       = (Inl (HTTPException 404 Session_not_found_or_expired), ex_db1)"
proof -
  have w: "wf_db ex_db1"
    by (simp add: ex_db1_eq wf_db_def ex_session1_def)
  have m: "ex_session1 \<in> set (verification_sessions ex_db1)"
    by (simp add: ex_db1_eq)
  have e: "expires_at ex_session1 \<le> 600000000"
    by (simp add: ex_session1_def)
  have t: "session_token ex_session1 = ''tok1''"
    by (simp add: ex_session1_def)
  show ?thesis
    using expired_session_is_invalid [OF w m e, of ex_accept "''1234''" ex_sms] w m e
    by (simp add: t ex_verification_def)
qed

section \<open>Confirming twice\<close>




section \<open>Provider failures\<close>

text \<open>
  Claim C6. When the rate limit lets the request through and the provider's send call raises,
  or answers without a usable \<^verbatim>\<open>pinId\<close>, initiate raises 503 and the database is unchanged: no
  session was created. When confirm has found a live, unverified session and the provider's
  verify call raises, confirm raises 503 and the database is unchanged: the same lookup still
  finds the same session row, its attempts as they were.
\<close>

theorem provider_failure_changes_nothing:
  "(recent_sessions d now (req_phone_number order) < 5 \<and>
    (sms = Status_Error \<or> sms = Transport_Error \<or> (\<exists>r. sms = Response r \<and> falsy_str (pinId r)))
      \<longrightarrow> initiate_order d now token sms order = (Inl (HTTPException 503 SMS_service_error), d))
   \<and> (wf_db d \<and> s \<in> set (verification_sessions d) \<and> now < expires_at s \<and> \<not> session_verified s \<and>
       (pin = Status_Error \<or> pin = Transport_Error)
      \<longrightarrow> verify_and_create_order d now pin \<lparr>req_session_token = session_token s, pin_code = code\<rparr>
            = (Inl (HTTPException 503
                 (if pin = Status_Error then Verification_service_temporarily_unavailable
                  else Verification_service_error)), d)
          \<and> find (\<lambda>x. session_token x = session_token s \<and> expires_at x > now)
               (verification_sessions
                  (snd (verify_and_create_order d now pin
                          \<lparr>req_session_token = session_token s, pin_code = code\<rparr>))) = Some s)"
proof (intro conjI impI)
  assume a: "recent_sessions d now (req_phone_number order) < 5 \<and>
    (sms = Status_Error \<or> sms = Transport_Error \<or> (\<exists>r. sms = Response r \<and> falsy_str (pinId r)))"
  then show "initiate_order d now token sms order = (Inl (HTTPException 503 SMS_service_error), d)"
    by (auto simp: initiate_order_def Let_def)
next
  assume b: "wf_db d \<and> s \<in> set (verification_sessions d) \<and> now < expires_at s \<and> \<not> session_verified s \<and>
       (pin = Status_Error \<or> pin = Transport_Error)"
  then have f: "find (\<lambda>x. session_token x = session_token s \<and> expires_at x > now)
           (verification_sessions d) = Some s"
    using live_session_found by blast
  with b show r: "verify_and_create_order d now pin \<lparr>req_session_token = session_token s, pin_code = code\<rparr>
            = (Inl (HTTPException 503
                 (if pin = Status_Error then Verification_service_temporarily_unavailable
                  else Verification_service_error)), d)"
    by (auto simp: verify_and_create_order_def)
  show "find (\<lambda>x. session_token x = session_token s \<and> expires_at x > now)
               (verification_sessions
                  (snd (verify_and_create_order d now pin
                          \<lparr>req_session_token = session_token s, pin_code = code\<rparr>))) = Some s"
    unfolding r using f by simp
qed

theorem provider_failure_changes_nothing_witness:
  "recent_sessions ex_db1 5 (req_phone_number ex_request) < 5
   \<and> initiate_order ex_db1 5 ''tok2'' Transport_Error ex_request
       = (Inl (HTTPException 503 SMS_service_error), ex_db1)
   \<and> wf_db ex_db1 \<and> ex_session1 \<in> set (verification_sessions ex_db1)
   \<and> 5 < expires_at ex_session1 \<and> \<not> session_verified ex_session1
   \<and> verify_and_create_order ex_db1 5 Status_Error ex_verification
       = (Inl (HTTPException 503 Verification_service_temporarily_unavailable), ex_db1)"
proof -
  have r: "recent_sessions ex_db1 5 (req_phone_number ex_request) < 5"
    by (simp add: recent_sessions_def ex_db1_eq)
  have m: "ex_session1 \<in> set (verification_sessions ex_db1)"
    by (simp add: ex_db1_eq)
  have e: "5 < expires_at ex_session1" and u: "\<not> session_verified ex_session1"
    and t: "session_token ex_session1 = ''tok1''"
    by (simp_all add: ex_session1_def)
  from provider_failure_changes_nothing [where d = ex_db1 and now = 5 and order = ex_request
      and sms = Transport_Error and token = "''tok2''" and s = ex_session1
      and pin = Status_Error and code = "''1234''"]
  show ?thesis using r wf_ex_db1 m e u
    by (simp add: t ex_verification_def)
qed

section \<open>Rejected codes\<close>

text \<open>
  Claim C8. Confirm on a live, unverified session whose code the provider reports as not
  verified first adds one to the session's attempts. If the provider reports no attempt
  remaining (the key is 0 or missing), the session row is then deleted and 403 "Maximum
  verification attempts exceeded" is raised (AttemptsExhausted); any later confirm with that
  token, whatever the code, the instant and the provider's answer, raises 401 (SessionInvalid).
  Otherwise 400 "Invalid code" is raised with the provider's count of remaining attempts, and
  the session stays live with its attempts one higher.
\<close>

theorem rejected_code_counts_an_attempt:
  assumes "wf_db d" and "s \<in> set (verification_sessions d)" and "now < expires_at s"
    and "\<not> session_verified s" and "falsy_bool (verified_key r)"
  shows "((attemptsRemaining r = None \<or> attemptsRemaining r = Some 0) \<longrightarrow>
            verify_and_create_order d now (Response r)
                \<lparr>req_session_token = session_token s, pin_code = code\<rparr>
              = (Inl (HTTPException 403 Maximum_verification_attempts_exceeded),
                 delete_session (session_id s)
                   (update_session (session_id s) (\<lambda>x. x\<lparr>attempts := attempts x + 1\<rparr>) d))
          \<and> (\<forall>now' pin' code'.
                verify_and_create_order
                    (delete_session (session_id s)
                       (update_session (session_id s) (\<lambda>x. x\<lparr>attempts := attempts x + 1\<rparr>) d))
                    now' pin' \<lparr>req_session_token = session_token s, pin_code = code'\<rparr>
                  = (Inl (HTTPException 401 Invalid_or_expired_session),
                     delete_session (session_id s)
                       (update_session (session_id s) (\<lambda>x. x\<lparr>attempts := attempts x + 1\<rparr>) d))))
       \<and> (\<forall>n. attemptsRemaining r = Some n \<and> n \<noteq> 0 \<longrightarrow>
            verify_and_create_order d now (Response r)
                \<lparr>req_session_token = session_token s, pin_code = code\<rparr>
              = (Inl (HTTPException 400 (Invalid_code n)),
                 update_session (session_id s) (\<lambda>x. x\<lparr>attempts := attempts x + 1\<rparr>) d)
          \<and> find (\<lambda>x. session_token x = session_token s \<and> expires_at x > now)
               (verification_sessions
                  (update_session (session_id s) (\<lambda>x. x\<lparr>attempts := attempts x + 1\<rparr>) d))
              = Some (s\<lparr>attempts := attempts s + 1\<rparr>))"
proof -
  let ?v = "\<lparr>req_session_token = session_token s, pin_code = code\<rparr>"
  let ?inc = "\<lambda>x. x\<lparr>attempts := attempts x + 1\<rparr>"
  let ?d1 = "update_session (session_id s) ?inc d"
  let ?d2 = "delete_session (session_id s) ?d1"
  from assms(1) have dt: "distinct (map session_token (verification_sessions d))"
    and di: "distinct (map session_id (verification_sessions d))"
    by (simp_all add: wf_db_def)
  have f: "find (\<lambda>x. session_token x = req_session_token ?v \<and> expires_at x > now)
             (verification_sessions d) = Some s"
    using live_session_found [OF assms(1-3)] by simp
  have gone: "verification_sessions ?d2
                = filter (\<lambda>x. session_id x \<noteq> session_id s) (verification_sessions d)"
    by (simp add: delete_session_def update_session_def filter_updated)
  have after: "verify_and_create_order ?d2 now' pin'
                 \<lparr>req_session_token = session_token s, pin_code = code'\<rparr>
               = (Inl (HTTPException 401 Invalid_or_expired_session), ?d2)" for now' pin' code'
    using token_gone [OF dt assms(2), of "\<lambda>x. expires_at x > now'"]
    by (simp add: verify_and_create_order_def gone)
  have upd: "verification_sessions ?d1
               = map (\<lambda>x. if x = s then ?inc s else x) (verification_sessions d)"
    using update_only_row [OF di assms(2), of ?inc] by (simp add: update_session_def)
  have dt1: "distinct (map session_token (verification_sessions ?d1))"
  proof -
    have "map session_token (verification_sessions ?d1) = map session_token (verification_sessions d)"
      by (simp add: update_session_def comp_def if_distrib cong: if_cong)
    with dt show ?thesis by simp
  qed
  have in1: "?inc s \<in> set (verification_sessions ?d1)"
    using assms(2) by (auto simp: upd)
  have still: "find (\<lambda>x. session_token x = session_token s \<and> expires_at x > now)
                 (verification_sessions ?d1) = Some (?inc s)"
    using find_unique_key [OF dt1 in1, of "\<lambda>x. expires_at x > now"] assms(3) by simp
  show ?thesis
    using confirm_rejected_last [OF f assms(4,5)] confirm_rejected [OF f assms(4,5)] after still
    by blast
qed

theorem rejected_code_counts_an_attempt_witness:
  "wf_db ex_db1 \<and> ex_session1 \<in> set (verification_sessions ex_db1) \<and> 5 < expires_at ex_session1
   \<and> \<not> session_verified ex_session1
   \<and> verify_and_create_order ex_db1 5 ex_reject ex_verification
       = (Inl (HTTPException 400 (Invalid_code 2)),
          update_session 1 (\<lambda>x. x\<lparr>attempts := attempts x + 1\<rparr>) ex_db1)
   \<and> verify_and_create_order ex_db1 5 ex_reject_last ex_verification
       = (Inl (HTTPException 403 Maximum_verification_attempts_exceeded),
          delete_session 1 (update_session 1 (\<lambda>x. x\<lparr>attempts := attempts x + 1\<rparr>) ex_db1))
   \<and> verify_and_create_order
         (delete_session 1 (update_session 1 (\<lambda>x. x\<lparr>attempts := attempts x + 1\<rparr>) ex_db1))
         6 ex_accept ex_verification
       = (Inl (HTTPException 401 Invalid_or_expired_session),
          delete_session 1 (update_session 1 (\<lambda>x. x\<lparr>attempts := attempts x + 1\<rparr>) ex_db1))"
proof -
  have m: "ex_session1 \<in> set (verification_sessions ex_db1)"
    by (simp add: ex_db1_eq)
  have e: "5 < expires_at ex_session1" and u: "\<not> session_verified ex_session1"
    and i: "session_id ex_session1 = 1" and t: "session_token ex_session1 = ''tok1''"
    by (simp_all add: ex_session1_def)
  have f2: "falsy_bool (verified_key \<lparr>verified_key = Some False, attemptsRemaining = Some 2\<rparr>)"
    and f0: "falsy_bool (verified_key \<lparr>verified_key = Some False, attemptsRemaining = Some 0\<rparr>)"
    by (simp_all add: falsy_bool_def)
  from rejected_code_counts_an_attempt [OF wf_ex_db1 m e u f2, of "''1234''"]
    rejected_code_counts_an_attempt [OF wf_ex_db1 m e u f0, of "''1234''"]
  show ?thesis using wf_ex_db1 m e u
    by (simp add: i t ex_verification_def ex_reject_def ex_reject_last_def)
qed

text \<open>
  Claim C10. When confirm raises 400 "Invalid code", the database it leaves differs from the one
  it found in one session row only, the one with the request's token, and in that row only
  in \<open>attempts\<close>, which is one higher: token, phone number, pin id, verified flag,
  expiry and order data are as they were, and the order table is untouched.
\<close>

theorem invalid_code_frame:
  assumes "wf_db d"
    and "verify_and_create_order d now pin v = (Inl (HTTPException 400 (Invalid_code n)), d')"
  shows "\<exists>s \<in> set (verification_sessions d).
           session_token s = req_session_token v
         \<and> d' = d\<lparr>verification_sessions :=
                    map (\<lambda>x. if x = s then s\<lparr>attempts := attempts s + 1\<rparr> else x)
                      (verification_sessions d)\<rparr>"
proof -
  from invalid_code_inv [OF assms(2)] obtain s where
    f: "find (\<lambda>x. session_token x = req_session_token v \<and> expires_at x > now)
          (verification_sessions d) = Some s"
    and d': "d' = update_session (session_id s) (\<lambda>x. x\<lparr>attempts := attempts x + 1\<rparr>) d"
    by blast
  from found_session [OF f] have s: "s \<in> set (verification_sessions d)"
    and t: "session_token s = req_session_token v" by simp_all
  from assms(1) have "distinct (map session_id (verification_sessions d))"
    by (simp add: wf_db_def)
  from update_only_row [OF this s, of "\<lambda>x. x\<lparr>attempts := attempts x + 1\<rparr>"]
  have "d' = d\<lparr>verification_sessions :=
                 map (\<lambda>x. if x = s then s\<lparr>attempts := attempts s + 1\<rparr> else x)
                   (verification_sessions d)\<rparr>"
    by (simp add: d' update_session_def)
  with s t show ?thesis by blast
qed

theorem invalid_code_frame_witness:
  "wf_db ex_db1
   \<and> verify_and_create_order ex_db1 5 ex_reject ex_verification
       = (Inl (HTTPException 400 (Invalid_code 2)),
          \<lparr>verification_sessions = [ex_session1_failed], orders = [],
           next_session_id = 2, next_order_id = 1\<rparr>)
   \<and> (\<exists>s \<in> set (verification_sessions ex_db1).
         session_token s = req_session_token ex_verification
       \<and> \<lparr>verification_sessions = [ex_session1_failed], orders = [],
           next_session_id = 2, next_order_id = 1\<rparr>
          = ex_db1\<lparr>verification_sessions :=
                     map (\<lambda>x. if x = s then s\<lparr>attempts := attempts s + 1\<rparr> else x)
                       (verification_sessions ex_db1)\<rparr>)"
proof -
  have c: "verify_and_create_order ex_db1 5 ex_reject ex_verification
       = (Inl (HTTPException 400 (Invalid_code 2)),
          \<lparr>verification_sessions = [ex_session1_failed], orders = [],
           next_session_id = 2, next_order_id = 1\<rparr>)"
    by (simp add: ex_db1_eq verify_and_create_order_def ex_reject_def ex_verification_def
        ex_session1_def falsy_bool_def update_session_def Let_def ex_session1_failed_def)
  from invalid_code_frame [OF wf_ex_db1 c] show ?thesis
    using wf_ex_db1 c by simp
qed

section \<open>Totals\<close>




section \<open>Rate limit\<close>

text \<open>
  Claim C4, as the code has it. Initiate raises 429 exactly when at least five rows of the
  session table have the request's phone number and a creation instant within the last hour.
  The count is over the rows stored at that moment, whether live, expired or verified; a
  session that a successful confirmation or an exhausted attempt count has deleted is not a
  row any more and is not counted. In particular, after five initiate calls for one phone
  number have succeeded one after the other, a sixth one inside the hour raises 429.
\<close>

theorem rate_limit_counts_stored_sessions:
  "(fst (initiate_order d now token sms order)
        = Inl (HTTPException 429 Too_many_verification_attempts)
      \<longleftrightarrow> 5 \<le> length (filter (\<lambda>s. session_phone_number s = req_phone_number order
                                    \<and> now - timedelta_hours 1 < session_created_at s)
                         (verification_sessions d)))
   \<and> (initiate_order d0 t1 k1 m1 o1 = (Inr r1, d1)
      \<and> initiate_order d1 t2 k2 m2 o2 = (Inr r2, d2)
      \<and> initiate_order d2 t3 k3 m3 o3 = (Inr r3, d3)
      \<and> initiate_order d3 t4 k4 m4 o4 = (Inr r4, d4)
      \<and> initiate_order d4 t5 k5 m5 o5 = (Inr r5, d5)
      \<and> req_phone_number o1 = req_phone_number o6 \<and> req_phone_number o2 = req_phone_number o6
      \<and> req_phone_number o3 = req_phone_number o6 \<and> req_phone_number o4 = req_phone_number o6
      \<and> req_phone_number o5 = req_phone_number o6
      \<and> t6 - timedelta_hours 1 < t1 \<and> t6 - timedelta_hours 1 < t2
      \<and> t6 - timedelta_hours 1 < t3 \<and> t6 - timedelta_hours 1 < t4
      \<and> t6 - timedelta_hours 1 < t5
      \<longrightarrow> fst (initiate_order d5 t6 k6 m6 o6)
            = Inl (HTTPException 429 Too_many_verification_attempts))"
proof (intro conjI impI)
  show "fst (initiate_order d now token sms order)
        = Inl (HTTPException 429 Too_many_verification_attempts)
      \<longleftrightarrow> 5 \<le> length (filter (\<lambda>s. session_phone_number s = req_phone_number order
                                    \<and> now - timedelta_hours 1 < session_created_at s)
                         (verification_sessions d))"
    by (auto simp: initiate_order_def recent_sessions_def Let_def split: provider.splits)
next
  let ?P = "\<lambda>s. session_phone_number s = req_phone_number o6
                \<and> t6 - timedelta_hours 1 < session_created_at s"
  assume a: "initiate_order d0 t1 k1 m1 o1 = (Inr r1, d1)
      \<and> initiate_order d1 t2 k2 m2 o2 = (Inr r2, d2)
      \<and> initiate_order d2 t3 k3 m3 o3 = (Inr r3, d3)
      \<and> initiate_order d3 t4 k4 m4 o4 = (Inr r4, d4)
      \<and> initiate_order d4 t5 k5 m5 o5 = (Inr r5, d5)
      \<and> req_phone_number o1 = req_phone_number o6 \<and> req_phone_number o2 = req_phone_number o6
      \<and> req_phone_number o3 = req_phone_number o6 \<and> req_phone_number o4 = req_phone_number o6
      \<and> req_phone_number o5 = req_phone_number o6
      \<and> t6 - timedelta_hours 1 < t1 \<and> t6 - timedelta_hours 1 < t2
      \<and> t6 - timedelta_hours 1 < t3 \<and> t6 - timedelta_hours 1 < t4
      \<and> t6 - timedelta_hours 1 < t5"
  from a initiate_appends [of d0 t1 k1 m1 o1 r1 d1] obtain s1 where
    s1: "verification_sessions d1 = verification_sessions d0 @ [s1]" "?P s1" by auto
  from a initiate_appends [of d1 t2 k2 m2 o2 r2 d2] obtain s2 where
    s2: "verification_sessions d2 = verification_sessions d1 @ [s2]" "?P s2" by auto
  from a initiate_appends [of d2 t3 k3 m3 o3 r3 d3] obtain s3 where
    s3: "verification_sessions d3 = verification_sessions d2 @ [s3]" "?P s3" by auto
  from a initiate_appends [of d3 t4 k4 m4 o4 r4 d4] obtain s4 where
    s4: "verification_sessions d4 = verification_sessions d3 @ [s4]" "?P s4" by auto
  from a initiate_appends [of d4 t5 k5 m5 o5 r5 d5] obtain s5 where
    s5: "verification_sessions d5 = verification_sessions d4 @ [s5]" "?P s5" by auto
  have "filter ?P (verification_sessions d5)
          = filter ?P (verification_sessions d0) @ [s1, s2, s3, s4, s5]"
    using s1 s2 s3 s4 s5 by simp
  then have "5 \<le> recent_sessions d5 t6 (req_phone_number o6)"
    by (simp add: recent_sessions_def)
  then show "fst (initiate_order d5 t6 k6 m6 o6)
            = Inl (HTTPException 429 Too_many_verification_attempts)"
    by (simp add: initiate_order_def)
qed

theorem rate_limit_counts_stored_sessions_witness:
  "initiate_order ex_db2 10 ''tok2'' ex_sms ex_request = (Inr (ex_initiated ''tok2''), ex_db3)
   \<and> initiate_order ex_db3 11 ''tok3'' ex_sms ex_request = (Inr (ex_initiated ''tok3''), ex_db4)
   \<and> initiate_order ex_db4 12 ''tok4'' ex_sms ex_request = (Inr (ex_initiated ''tok4''), ex_db5)
   \<and> initiate_order ex_db5 13 ''tok5'' ex_sms ex_request = (Inr (ex_initiated ''tok5''), ex_db6)
   \<and> initiate_order ex_db6 14 ''tok6'' ex_sms ex_request = (Inr (ex_initiated ''tok6''), ex_db7)
   \<and> (15::int) - timedelta_hours 1 < 10
   \<and> fst (initiate_order ex_db7 15 ''tok7'' ex_sms ex_request)
       = Inl (HTTPException 429 Too_many_verification_attempts)
   \<and> 5 \<le> length (filter (\<lambda>s. session_phone_number s = req_phone_number ex_request
                              \<and> 15 - timedelta_hours 1 < session_created_at s)
                   (verification_sessions ex_db7))"
proof -
  have i: "initiate_order ex_db2 10 ''tok2'' ex_sms ex_request = (Inr (ex_initiated ''tok2''), ex_db3)"
    "initiate_order ex_db3 11 ''tok3'' ex_sms ex_request = (Inr (ex_initiated ''tok3''), ex_db4)"
    "initiate_order ex_db4 12 ''tok4'' ex_sms ex_request = (Inr (ex_initiated ''tok4''), ex_db5)"
    "initiate_order ex_db5 13 ''tok5'' ex_sms ex_request = (Inr (ex_initiated ''tok5''), ex_db6)"
    "initiate_order ex_db6 14 ''tok6'' ex_sms ex_request = (Inr (ex_initiated ''tok6''), ex_db7)"
    by (simp_all only: ex_initiate2 ex_initiate3 ex_initiate4 ex_initiate5 ex_initiate6
        ex_db3_eq [symmetric] ex_db4_eq [symmetric] ex_db5_eq [symmetric]
        ex_db6_eq [symmetric] ex_db7_eq [symmetric])
  have t: "(15::int) - timedelta_hours 1 < 10" "(15::int) - timedelta_hours 1 < 11"
    "(15::int) - timedelta_hours 1 < 12" "(15::int) - timedelta_hours 1 < 13"
    "(15::int) - timedelta_hours 1 < 14"
    by (simp_all add: timedelta_hours_def)
  from rate_limit_counts_stored_sessions [where d = ex_db7 and now = 15 and token = "''tok7''"
      and sms = ex_sms and order = ex_request
      and ?d0.0 = ex_db2 and ?t1.0 = 10 and ?k1.0 = "''tok2''" and ?m1.0 = ex_sms
      and ?o1.0 = ex_request and ?r1.0 = "ex_initiated ''tok2''" and ?d1.0 = ex_db3
      and ?t2.0 = 11 and ?k2.0 = "''tok3''" and ?m2.0 = ex_sms
      and ?o2.0 = ex_request and ?r2.0 = "ex_initiated ''tok3''" and ?d2.0 = ex_db4
      and ?t3.0 = 12 and ?k3.0 = "''tok4''" and ?m3.0 = ex_sms
      and ?o3.0 = ex_request and ?r3.0 = "ex_initiated ''tok4''" and ?d3.0 = ex_db5
      and ?t4.0 = 13 and ?k4.0 = "''tok5''" and ?m4.0 = ex_sms
      and ?o4.0 = ex_request and ?r4.0 = "ex_initiated ''tok5''" and ?d4.0 = ex_db6
      and ?t5.0 = 14 and ?k5.0 = "''tok6''" and ?m5.0 = ex_sms
      and ?o5.0 = ex_request and ?r5.0 = "ex_initiated ''tok6''" and ?d5.0 = ex_db7
      and ?o6.0 = ex_request and ?t6.0 = 15 and ?k6.0 = "''tok7''" and ?m6.0 = ex_sms]
  have r: "fst (initiate_order ex_db7 15 ''tok7'' ex_sms ex_request)
             = Inl (HTTPException 429 Too_many_verification_attempts)"
    and c: "fst (initiate_order ex_db7 15 ''tok7'' ex_sms ex_request)
             = Inl (HTTPException 429 Too_many_verification_attempts)
           \<longleftrightarrow> 5 \<le> length (filter (\<lambda>s. session_phone_number s = req_phone_number ex_request
                              \<and> 15 - timedelta_hours 1 < session_created_at s)
                   (verification_sessions ex_db7))"
    using i t by blast+
  from r c have "5 \<le> length (filter (\<lambda>s. session_phone_number s = req_phone_number ex_request
                              \<and> 15 - timedelta_hours 1 < session_created_at s)
                   (verification_sessions ex_db7))"
    by blast
  with r i t(1) show ?thesis by blast
qed

text \<open>
  The claim as stated fails on this run: the buyer initiates and confirms an order, then
  initiates five more times, all within fourteen microseconds. The confirmation has deleted
  the first session, so the sixth initiate call of the hour is not rate limited.
\<close>

theorem rate_limit_counterexample:
  "fst (initiate_order empty_db 0 ''tok1'' ex_sms ex_request) = Inr (ex_initiated ''tok1'')
   \<and> fst (verify_and_create_order ex_db1 5 ex_accept ex_verification) = Inr ex_response1
   \<and> fst (initiate_order ex_db2 10 ''tok2'' ex_sms ex_request) = Inr (ex_initiated ''tok2'')
   \<and> fst (initiate_order ex_db3 11 ''tok3'' ex_sms ex_request) = Inr (ex_initiated ''tok3'')
   \<and> fst (initiate_order ex_db4 12 ''tok4'' ex_sms ex_request) = Inr (ex_initiated ''tok4'')
   \<and> fst (initiate_order ex_db5 13 ''tok5'' ex_sms ex_request) = Inr (ex_initiated ''tok5'')
   \<and> fst (initiate_order ex_db6 14 ''tok6'' ex_sms ex_request) = Inr (ex_initiated ''tok6'')
   \<and> fst (initiate_order ex_db6 14 ''tok6'' ex_sms ex_request)
       \<noteq> Inl (HTTPException 429 Too_many_verification_attempts)"
  by (simp add: ex_initiate1 ex_confirm1 ex_initiate2 ex_initiate3 ex_initiate4 ex_initiate5
      ex_initiate6)

section \<open>Order status changes\<close>

text \<open>
  Claim C2, at an input where the code departs from it. Order 1 is in state "verified", the
  token is that of a live session with the order's phone number, and the requested state is
  "delivered", which the table does not allow from "verified". The handler reaches
  \<^verbatim>\<open>raise HTTPException(status_code=status.HTTP_400_BAD_REQUEST, ...)\<close>, where \<^verbatim>\<open>status\<close> is
  the requested \<^verbatim>\<open>OrderStatus\<close> and not the module: an AttributeError leaves the handler, and
  no 400 "Cannot transition from verified to delivered" is raised. The order is unchanged.
\<close>

theorem invalid_transition_raises_attribute_error:
  "get_current_session ex_db3 20 ''tok2'' = Inr (ex_session_at 2 ''tok2'' 10)
   \<and> find (\<lambda>r. order_id r = 1 \<and> phone_number r = session_phone_number (ex_session_at 2 ''tok2'' 10))
        (orders ex_db3) = Some ex_order1
   \<and> order_status ex_order1 = OrderStatus_value VERIFIED
   \<and> (VERIFIED, DELIVERED) \<notin> set spec_transition_table
   \<and> update_order_status ex_db3 20 ''tok2'' 1 DELIVERED = (Inl (Unhandled AttributeError), ex_db3)
   \<and> fst (update_order_status ex_db3 20 ''tok2'' 1 DELIVERED)
       \<noteq> Inl (HTTPException 400 (Cannot_transition ''verified'' ''delivered''))"
  by (simp add: ex_db3_eq get_current_session_def update_order_status_def ex_session_at_def
      ex_order1_def OrderStatus_of_def spec_transition_table_def)

text \<open>
  What holds of the two handlers. For a live session and an order with its phone number, in
  any of the six states: a status change succeeds exactly when the pair of current and requested
  state is in the specification's table, and then writes the requested state; otherwise the
  order is untouched (and the AttributeError above is raised). A cancellation is rejected with
  400 exactly when the current state is "shipped" or "delivered", and otherwise writes
  "cancelled".
\<close>

theorem status_change_follows_table:
  assumes "get_current_session d now credentials = Inr session"
    and "find (\<lambda>r. order_id r = oid \<and> phone_number r = session_phone_number session) (orders d)
           = Some ord"
    and "order_status ord = OrderStatus_value cur"
  shows "update_order_status d now credentials oid req
           = (if (cur, req) \<in> set spec_transition_table
              then (Inr (''Order status updated to '' @ OrderStatus_value req),
                    update_order (order_id ord)
                      (\<lambda>r. r\<lparr>order_status := OrderStatus_value req, updated_at := now\<rparr>) d)
              else (Inl (Unhandled AttributeError), d))
       \<and> cancel_order d now credentials oid
           = (if cur = SHIPPED \<or> cur = DELIVERED
              then (Inl (HTTPException 400 Cannot_cancel_shipped_or_delivered_orders), d)
              else (Inr ''Order cancelled successfully'',
                    update_order (order_id ord)
                      (\<lambda>r. r\<lparr>order_status := OrderStatus_value CANCELLED, updated_at := now\<rparr>) d))"
proof -
  have u: "update_order_status d now credentials oid req
           = (if (cur, req) \<in> set spec_transition_table
              then (Inr (''Order status updated to '' @ OrderStatus_value req),
                    update_order (order_id ord)
                      (\<lambda>r. r\<lparr>order_status := OrderStatus_value req, updated_at := now\<rparr>) d)
              else (Inl (Unhandled AttributeError), d))"
    using assms by (simp add: update_order_status_def OrderStatus_of_value in_spec_table)
  have c: "cancel_order d now credentials oid
           = (if cur = SHIPPED \<or> cur = DELIVERED
              then (Inl (HTTPException 400 Cannot_cancel_shipped_or_delivered_orders), d)
              else (Inr ''Order cancelled successfully'',
                    update_order (order_id ord)
                      (\<lambda>r. r\<lparr>order_status := OrderStatus_value CANCELLED, updated_at := now\<rparr>) d))"
    using assms cancel_rejected_iff [of cur] by (simp add: cancel_order_def del: set_simps)
  from u c show ?thesis by (rule conjI)
qed

theorem status_change_follows_table_witness:
  "get_current_session ex_db3 20 ''tok2'' = Inr (ex_session_at 2 ''tok2'' 10)
   \<and> find (\<lambda>r. order_id r = 1 \<and> phone_number r = session_phone_number (ex_session_at 2 ''tok2'' 10))
        (orders ex_db3) = Some ex_order1
   \<and> order_status ex_order1 = OrderStatus_value VERIFIED
   \<and> (VERIFIED, PROCESSING) \<in> set spec_transition_table
   \<and> update_order_status ex_db3 20 ''tok2'' 1 PROCESSING
       = (Inr ''Order status updated to processing'',
          update_order 1 (\<lambda>r. r\<lparr>order_status := ''processing'', updated_at := 20\<rparr>) ex_db3)
   \<and> cancel_order ex_db3 20 ''tok2'' 1
       = (Inr ''Order cancelled successfully'',
          update_order 1 (\<lambda>r. r\<lparr>order_status := ''cancelled'', updated_at := 20\<rparr>) ex_db3)"
proof -
  have g: "get_current_session ex_db3 20 ''tok2'' = Inr (ex_session_at 2 ''tok2'' 10)"
    by (simp add: ex_db3_eq get_current_session_def ex_session_at_def)
  have f: "find (\<lambda>r. order_id r = 1 \<and> phone_number r = session_phone_number (ex_session_at 2 ''tok2'' 10))
        (orders ex_db3) = Some ex_order1"
    by (simp add: ex_db3_eq ex_session_at_def ex_order1_def)
  have o: "order_status ex_order1 = OrderStatus_value VERIFIED"
    and i: "order_id ex_order1 = 1"
    by (simp_all add: ex_order1_def)
  have t: "(VERIFIED, PROCESSING) \<in> set spec_transition_table"
    by (simp add: spec_transition_table_def)
  from status_change_follows_table [OF g f o, of PROCESSING]
  show ?thesis using g f o t by (simp add: i)
qed

section \<open>Authorization of order changes\<close>

text \<open>
  Claim C3, at an input where the code departs from it. The token is that of a live session
  of another phone number than order 1's. The order lookup finds nothing and the handler
  reaches \<^verbatim>\<open>raise HTTPException(status_code=status.HTTP_404_NOT_FOUND, ...)\<close> with \<^verbatim>\<open>status\<close>
  the requested \<^verbatim>\<open>OrderStatus\<close>: an AttributeError leaves the handler instead of 404 "Order not
  found or unauthorized". The cancel handler, which has no such parameter, raises the 404 on
  the same token and order. The order is unchanged by both.
\<close>

theorem foreign_token_raises_attribute_error:
  "get_current_session ex_db_other 20 ''tok9'' = Inr ex_session_other
   \<and> session_phone_number ex_session_other \<noteq> phone_number ex_order1
   \<and> orders ex_db_other = [ex_order1]
   \<and> update_order_status ex_db_other 20 ''tok9'' 1 PROCESSING
       = (Inl (Unhandled AttributeError), ex_db_other)
   \<and> fst (update_order_status ex_db_other 20 ''tok9'' 1 PROCESSING)
       \<noteq> Inl (HTTPException 404 Order_not_found_or_unauthorized)
   \<and> cancel_order ex_db_other 20 ''tok9'' 1
       = (Inl (HTTPException 404 Order_not_found_or_unauthorized), ex_db_other)"
  by (simp add: ex_db_other_eq get_current_session_def update_order_status_def cancel_order_def
      ex_session_other_def ex_order1_def)

text \<open>
  What holds of the two handlers. A status change or a cancellation that succeeds was called
  with the token of a stored session that has not expired and whose phone number is that of
  a stored order with the requested id; and a call that raises leaves the database as it was.
\<close>

theorem mutation_needs_matching_live_session:
  "(fst (update_order_status d now credentials oid st) = Inr m
      \<or> fst (cancel_order d now credentials oid) = Inr m
    \<longrightarrow> (\<exists>s \<in> set (verification_sessions d).
            session_token s = credentials \<and> now < expires_at s
          \<and> (\<exists>r \<in> set (orders d). order_id r = oid \<and> phone_number r = session_phone_number s)))
   \<and> (\<forall>e. fst (update_order_status d now credentials oid st) = Inl e
          \<longrightarrow> snd (update_order_status d now credentials oid st) = d)
   \<and> (\<forall>e. fst (cancel_order d now credentials oid) = Inl e
          \<longrightarrow> snd (cancel_order d now credentials oid) = d)"
proof (intro conjI impI allI)
  assume "fst (update_order_status d now credentials oid st) = Inr m
      \<or> fst (cancel_order d now credentials oid) = Inr m"
  then obtain s r where
    s: "find (\<lambda>s. session_token s = credentials \<and> now < expires_at s) (verification_sessions d) = Some s"
    and r: "find (\<lambda>r. order_id r = oid \<and> phone_number r = session_phone_number s) (orders d) = Some r"
    by (auto simp: update_order_status_def cancel_order_def get_current_session_def
        split: option.splits sum.splits if_splits)
  from find_some_in [OF s] find_some_in [OF r]
  show "\<exists>s \<in> set (verification_sessions d).
            session_token s = credentials \<and> now < expires_at s
          \<and> (\<exists>r \<in> set (orders d). order_id r = oid \<and> phone_number r = session_phone_number s)"
    by blast
next
  fix e assume "fst (update_order_status d now credentials oid st) = Inl e"
  then show "snd (update_order_status d now credentials oid st) = d"
    by (auto simp: update_order_status_def split: option.splits sum.splits if_splits)
next
  fix e assume "fst (cancel_order d now credentials oid) = Inl e"
  then show "snd (cancel_order d now credentials oid) = d"
    by (auto simp: cancel_order_def split: option.splits sum.splits if_splits)
qed

theorem mutation_needs_matching_live_session_witness:
  "fst (cancel_order ex_db3 20 ''tok2'' 1) = Inr ''Order cancelled successfully''
   \<and> (\<exists>s \<in> set (verification_sessions ex_db3).
         session_token s = ''tok2'' \<and> 20 < expires_at s
       \<and> (\<exists>r \<in> set (orders ex_db3). order_id r = 1 \<and> phone_number r = session_phone_number s))
   \<and> fst (cancel_order ex_db3 700000000 ''tok2'' 1)
       = Inl (HTTPException 401 Invalid_or_expired_session)
   \<and> snd (cancel_order ex_db3 700000000 ''tok2'' 1) = ex_db3"
proof -
  have c: "fst (cancel_order ex_db3 20 ''tok2'' 1) = Inr ''Order cancelled successfully''"
    by (simp add: ex_db3_eq cancel_order_def get_current_session_def ex_session_at_def
        ex_order1_def)
  have x: "fst (cancel_order ex_db3 700000000 ''tok2'' 1)
       = Inl (HTTPException 401 Invalid_or_expired_session)"
    by (simp add: ex_db3_eq cancel_order_def get_current_session_def ex_session_at_def)
  from mutation_needs_matching_live_session
         [of ex_db3 20 "''tok2''" 1 PROCESSING "''Order cancelled successfully''"]
       mutation_needs_matching_live_session
         [of ex_db3 700000000 "''tok2''" 1 PROCESSING "''Order cancelled successfully''"]
  show ?thesis using c x by blast
qed

end
